theory Spec2Isabelle
  imports Main
begin

section \<open>Values, exceptions and results\<close>

text \<open>
  The exit code handed to a quit method is opaque to the proxy: \<open>None\<close>, an integer
  or a text message. Exceptions are values; a call returns \<open>Inl e\<close> when it raises
  \<open>e\<close> and \<open>Inr v\<close> when it returns \<open>v\<close>. The constructor \<open>AttributeError\<close>
  stands for every instance that an \<^verbatim>\<open>except AttributeError\<close> clause catches.
\<close>

datatype pyval = PyNone | PyInt int | PyStr string

datatype exn = AttributeError string | SystemExit pyval | TypeError string | OtherException string

definition is_AttributeError :: "exn \<Rightarrow> bool" where
  "is_AttributeError e = (case e of AttributeError _ \<Rightarrow> True | SystemExit _ \<Rightarrow> False
      | TypeError _ \<Rightarrow> False | OtherException _ \<Rightarrow> False)"

text \<open>A parameter declared \<^verbatim>\<open>code=None\<close>: the caller passes a value or nothing.\<close>

definition default_None :: "pyval option \<Rightarrow> pyval" where
  "default_None arg = (case arg of None \<Rightarrow> PyNone | Some c \<Rightarrow> c)"

section \<open>The environment of the proxy\<close>

text \<open>
  Threads are identified by a number. A quit method is a Python callable; the model
  keeps its identity (a value of type \<open>'b\<close>) apart from what calling it does, which
  the parameter \<open>sem\<close> of the calling functions gives: called with a code in a world
  \<open>'w\<close> (standard input and whatever else the method acts on), it raises or returns
  and leaves a new world. A quit method acts on the world only, not on the proxy.

  The environment a call runs in holds that world, the record of the calls made to
  quit methods so far (who called which method with which code: an observation, the
  program does not read it) and the records handed to the module's \<^verbatim>\<open>LOGGER\<close>.
\<close>

type_synonym tid = nat

type_synonym ('b, 'w) quit_sem = "'b \<Rightarrow> pyval \<Rightarrow> 'w \<Rightarrow> (exn + pyval) \<times> 'w"

datatype log_level = DEBUG | INFO | WARNING | ERROR | CRITICAL

record ('b, 'w) env =
  world :: 'w
  calls :: "(tid \<times> 'b \<times> pyval) list"
  logger :: "(log_level \<times> string) list"

text \<open>The call expression \<^verbatim>\<open>q(code)\<close>, evaluated by thread \<open>t\<close>.\<close>

definition call_quit ::
  "('b, 'w) quit_sem \<Rightarrow> tid \<Rightarrow> 'b \<Rightarrow> pyval \<Rightarrow> ('b, 'w) env \<Rightarrow> (exn + pyval) \<times> ('b, 'w) env" where
  "call_quit sem t q code e =
     (case sem q code (world e) of
        (r, w') \<Rightarrow> (r, e\<lparr>world := w', calls := calls e @ [(t, q, code)]\<rparr>))"

section \<open>The thread-local attribute\<close>

text \<open>
  \<^verbatim>\<open>threading.local()\<close> gives every thread its own attributes. The proxy uses one
  attribute, \<^verbatim>\<open>quit\<close>, so the thread-local is a map from the thread to the value of
  its \<^verbatim>\<open>quit\<close>. Reading or deleting an attribute the calling thread has not set raises
  \<^verbatim>\<open>AttributeError\<close>; setting it always succeeds.
\<close>

definition local_getattr :: "(tid \<rightharpoonup> 'b) \<Rightarrow> tid \<Rightarrow> exn + 'b" where
  "local_getattr routes t =
     (case routes t of None \<Rightarrow> Inl (AttributeError ''quit'') | Some q \<Rightarrow> Inr q)"

definition local_setattr :: "(tid \<rightharpoonup> 'b) \<Rightarrow> tid \<Rightarrow> 'b \<Rightarrow> (tid \<rightharpoonup> 'b)" where
  "local_setattr routes t q = routes(t \<mapsto> q)"

definition local_delattr :: "(tid \<rightharpoonup> 'b) \<Rightarrow> tid \<Rightarrow> exn + (tid \<rightharpoonup> 'b)" where
  "local_delattr routes t =
     (case routes t of None \<Rightarrow> Inl (AttributeError ''quit'') | Some q \<Rightarrow> Inr (routes(t := None)))"

section \<open>Control flow of the methods\<close>

text \<open>
  \<^verbatim>\<open>try: body  except AttributeError: handler\<close>: the handler runs, in the state the
  body left, when the body raised an \<^verbatim>\<open>AttributeError\<close>; every other outcome of the
  body is the outcome of the statement.
\<close>

definition except_AttributeError ::
  "(exn + 'a) \<times> 's \<Rightarrow> ('s \<Rightarrow> (exn + 'a) \<times> 's) \<Rightarrow> (exn + 'a) \<times> 's" where
  "except_AttributeError body handler =
     (case body of
        (Inl e, s) \<Rightarrow> if is_AttributeError e then handler s else (Inl e, s)
      | (Inr v, s) \<Rightarrow> (Inr v, s))"

text \<open>
  A method body that ends without a \<^verbatim>\<open>return\<close> statement: the value of its last
  statement is dropped and the method returns \<^verbatim>\<open>None\<close>; an exception propagates.
\<close>

definition returns_None :: "(exn + 'a) \<times> 's \<Rightarrow> (exn + pyval) \<times> 's" where
  "returns_None r = (case r of (Inl e, s) \<Rightarrow> (Inl e, s) | (Inr v, s) \<Rightarrow> (Inr PyNone, s))"

section \<open>QuitterProxy\<close>

record 'b QuitterProxy =
  quit_routes :: "tid \<rightharpoonup> 'b"
  original_quit :: 'b

text \<open>\<^verbatim>\<open>register\<close>, called by thread \<open>t\<close>: one attribute assignment.\<close>

definition register :: "'b QuitterProxy \<Rightarrow> tid \<Rightarrow> 'b \<Rightarrow> 'b QuitterProxy" where
  "register self t quit_method =
     self\<lparr>quit_routes := local_setattr (quit_routes self) t quit_method\<rparr>"

text \<open>
  \<^verbatim>\<open>__init__\<close>, run by thread \<open>t\<close>: a fresh thread-local (no thread has a
  \<^verbatim>\<open>quit\<close>), the original quit stored, then \<^verbatim>\<open>self.register(original_quit)\<close>.
\<close>

definition QuitterProxy_init :: "tid \<Rightarrow> 'b \<Rightarrow> 'b QuitterProxy" where
  "QuitterProxy_init t oq = register \<lparr>quit_routes = Map.empty, original_quit = oq\<rparr> t oq"

text \<open>
  \<^verbatim>\<open>unregister\<close>, called by thread \<open>t\<close>: the \<^verbatim>\<open>del\<close> is the body of the
  \<^verbatim>\<open>try\<close>, the handler logs at debug level.
\<close>

definition unregister ::
  "'b QuitterProxy \<Rightarrow> tid \<Rightarrow> ('b, 'w) env \<Rightarrow> (exn + pyval) \<times> 'b QuitterProxy \<times> ('b, 'w) env" where
  "unregister self t e =
     returns_None
       (except_AttributeError
          (case local_delattr (quit_routes self) t of
             Inl x \<Rightarrow> (Inl x, self, e)
           | Inr routes' \<Rightarrow> (Inr PyNone, self\<lparr>quit_routes := routes'\<rparr>, e))
          (\<lambda>(self', e').
             (Inr PyNone, self',
              e'\<lparr>logger := logger e' @
                 [(DEBUG, ''unregister() called, but no quit method registered.'')]\<rparr>)))"

text \<open>
  \<^verbatim>\<open>__call__\<close>, called by thread \<open>t\<close>: the body of the \<^verbatim>\<open>try\<close> is the whole
  statement \<^verbatim>\<open>self.quit_routes.quit(code)\<close>, the attribute lookup and the call of
  what it finds; the handler calls the original quit.
\<close>

definition QuitterProxy_call ::
  "('b, 'w) quit_sem \<Rightarrow> 'b QuitterProxy \<Rightarrow> tid \<Rightarrow> pyval option \<Rightarrow> ('b, 'w) env
     \<Rightarrow> (exn + pyval) \<times> ('b, 'w) env" where
  "QuitterProxy_call sem self t arg e =
     (let code = default_None arg in
      returns_None
        (except_AttributeError
           (case local_getattr (quit_routes self) t of
              Inl x \<Rightarrow> (Inl x, e)
            | Inr q \<Rightarrow> call_quit sem t q code e)
           (\<lambda>e'. call_quit sem t (original_quit self) code e')))"

text \<open>\<^verbatim>\<open>__repr__\<close>, called by thread \<open>t\<close>: \<^verbatim>\<open>self()\<close> and nothing else.\<close>

definition QuitterProxy_repr ::
  "('b, 'w) quit_sem \<Rightarrow> 'b QuitterProxy \<Rightarrow> tid \<Rightarrow> ('b, 'w) env \<Rightarrow> (exn + pyval) \<times> ('b, 'w) env" where
  "QuitterProxy_repr sem self t e = returns_None (QuitterProxy_call sem self t None e)"

text \<open>
  Evaluating the proxy as a bare value, as typing \<^verbatim>\<open>exit\<close> at a prompt does, goes
  through the interpreter's \<^verbatim>\<open>repr\<close>: it calls the object's \<^verbatim>\<open>__repr__\<close>, lets
  an exception of the method pass, gives back a string the method returns, and raises
  \<^verbatim>\<open>TypeError\<close> when the method returns anything else. This is the interpreter's
  rule, not code of the module; \<open>bare_value\<close> applies it to the proxy's method.
\<close>

definition builtin_repr :: "(exn + pyval) \<times> 's \<Rightarrow> (exn + pyval) \<times> 's" where
  "builtin_repr r =
     (case r of
        (Inl x, s) \<Rightarrow> (Inl x, s)
      | (Inr v, s) \<Rightarrow>
          (case v of
             PyStr str \<Rightarrow> (Inr (PyStr str), s)
           | PyNone \<Rightarrow> (Inl (TypeError ''__repr__ returned non-string (type NoneType)''), s)
           | PyInt i \<Rightarrow> (Inl (TypeError ''__repr__ returned non-string (type int)''), s)))"

definition bare_value ::
  "('b, 'w) quit_sem \<Rightarrow> 'b QuitterProxy \<Rightarrow> tid \<Rightarrow> ('b, 'w) env \<Rightarrow> (exn + pyval) \<times> ('b, 'w) env" where
  "bare_value sem self t e = builtin_repr (QuitterProxy_repr sem self t e)"

section \<open>safe_quit\<close>

text \<open>\<^verbatim>\<open>raise SystemExit(code)\<close>; the function touches nothing of the world.\<close>

definition safe_quit :: "pyval option \<Rightarrow> 'w \<Rightarrow> (exn + pyval) \<times> 'w" where
  "safe_quit arg w = (let code = default_None arg in (Inl (SystemExit code), w))"

section \<open>Threads sharing one proxy\<close>

text \<open>
  A run is a list of the calls that threads make on the shared proxy, in the order in
  which they take effect. An exception that a call raises goes to its caller; the run
  goes on with the state the call left.
\<close>

datatype 'b op = Register tid 'b | Unregister tid | Call tid "pyval option" | Repr tid

fun step ::
  "('b, 'w) quit_sem \<Rightarrow> 'b op \<Rightarrow> 'b QuitterProxy \<times> ('b, 'w) env \<Rightarrow> 'b QuitterProxy \<times> ('b, 'w) env" where
  "step sem (Register t q) (self, e) = (register self t q, e)"
| "step sem (Unregister t) (self, e) = snd (unregister self t e)"
| "step sem (Call t arg) (self, e) = (self, snd (QuitterProxy_call sem self t arg e))"
| "step sem (Repr t) (self, e) = (self, snd (QuitterProxy_repr sem self t e))"

primrec exec ::
  "('b, 'w) quit_sem \<Rightarrow> 'b op list \<Rightarrow> 'b QuitterProxy \<times> ('b, 'w) env \<Rightarrow> 'b QuitterProxy \<times> ('b, 'w) env" where
  "exec sem [] st = st"
| "exec sem (x # xs) st = exec sem xs (step sem x st)"

text \<open>\<open>rebinds T x\<close>: the call \<open>x\<close> is a \<^verbatim>\<open>register\<close> or an \<^verbatim>\<open>unregister\<close> made by thread \<open>T\<close>.\<close>

fun rebinds :: "tid \<Rightarrow> 'b op \<Rightarrow> bool" where
  "rebinds T (Register t q) = (t = T)"
| "rebinds T (Unregister t) = (t = T)"
| "rebinds T (Call t arg) = False"
| "rebinds T (Repr t) = False"

section \<open>Quit methods used in the examples\<close>

text \<open>
  Four quit methods over a world that is one flag, "standard input is open":
  \<^verbatim>\<open>safe_quit\<close>; the interpreter's own quit as the module's docstring describes it
  (raises \<^verbatim>\<open>SystemExit\<close> and closes standard input); a method that fails with an
  \<^verbatim>\<open>AttributeError\<close> of its own; and a method that returns.
\<close>

datatype example_quit = SafeQuit | BuiltinQuit | BrokenQuit | ReturningQuit

fun example_sem :: "(example_quit, bool) quit_sem" where
  "example_sem SafeQuit code w = safe_quit (Some code) w"
| "example_sem BuiltinQuit code w = (Inl (SystemExit code), False)"
| "example_sem BrokenQuit code w = (Inl (AttributeError ''closed''), w)"
| "example_sem ReturningQuit code w = (Inr (PyInt 0), w)"

definition env0 :: "(example_quit, bool) env" where
  "env0 = \<lparr>world = True, calls = [], logger = []\<rparr>"

section \<open>Basic facts\<close>

lemma quit_routes_register:
  "quit_routes (register self t q) = (quit_routes self)(t \<mapsto> q)"
  by (simp add: register_def local_setattr_def)

lemma original_quit_register: "original_quit (register self t q) = original_quit self"
  by (simp add: register_def)

lemma unregister_present:
  "quit_routes self t = Some q \<Longrightarrow>
   unregister self t e = (Inr PyNone, self\<lparr>quit_routes := (quit_routes self)(t := None)\<rparr>, e)"
  by (simp add: unregister_def local_delattr_def except_AttributeError_def returns_None_def)

lemma unregister_absent:
  "quit_routes self t = None \<Longrightarrow>
   unregister self t e =
     (Inr PyNone, self,
      e\<lparr>logger := logger e @ [(DEBUG, ''unregister() called, but no quit method registered.'')]\<rparr>)"
  by (simp add: unregister_def local_delattr_def except_AttributeError_def returns_None_def
      is_AttributeError_def)

lemma call_absent:
  "quit_routes self t = None \<Longrightarrow>
   QuitterProxy_call sem self t arg e =
     returns_None (call_quit sem t (original_quit self) (default_None arg) e)"
  by (simp add: QuitterProxy_call_def local_getattr_def except_AttributeError_def
      is_AttributeError_def Let_def)

lemma call_present:
  "quit_routes self t = Some q \<Longrightarrow>
   QuitterProxy_call sem self t arg e =
     returns_None
       (except_AttributeError (call_quit sem t q (default_None arg) e)
          (call_quit sem t (original_quit self) (default_None arg)))"
  by (simp add: QuitterProxy_call_def local_getattr_def Let_def)

lemma returns_None_idem: "returns_None (returns_None r) = returns_None r"
  by (simp add: returns_None_def split: prod.splits sum.splits)

lemma calls_call_quit:
  "calls (snd (call_quit sem t q code e)) = calls e @ [(t, q, code)]"
  by (simp add: call_quit_def split: prod.splits)

lemma snd_returns_None: "snd (returns_None r) = snd r"
  by (simp add: returns_None_def split: prod.splits sum.splits)

lemma step_original_quit: "original_quit (fst (step sem x st)) = original_quit (fst st)"
  by (cases st; cases x)
     (simp_all add: original_quit_register unregister_def local_delattr_def
       except_AttributeError_def returns_None_def is_AttributeError_def split: option.splits)

lemma exec_original_quit: "original_quit (fst (exec sem xs st)) = original_quit (fst st)"
  by (induction xs arbitrary: st) (simp_all add: step_original_quit)

lemma step_frame:
  "\<not> rebinds T x \<Longrightarrow> quit_routes (fst (step sem x st)) T = quit_routes (fst st) T"
  by (cases st; cases x)
     (simp_all add: quit_routes_register unregister_def local_delattr_def
       except_AttributeError_def returns_None_def is_AttributeError_def split: option.splits)

lemma exec_frame:
  "list_all (\<lambda>x. \<not> rebinds T x) xs \<Longrightarrow>
   quit_routes (fst (exec sem xs st)) T = quit_routes (fst st) T"
  by (induction xs arbitrary: st) (simp_all add: step_frame)

lemma rebinds_other: "rebinds T x \<Longrightarrow> T \<noteq> T' \<Longrightarrow> \<not> rebinds T' x"
  by (cases x) simp_all

lemma list_all_rebinds_other:
  assumes "T \<noteq> T'" and "list_all (rebinds T) xs"
  shows "list_all (\<lambda>x. \<not> rebinds T' x) xs"
proof -
  have "\<forall>x \<in> set xs. rebinds T x"
    using assms(2) by (simp add: list_all_iff)
  then have "\<forall>x \<in> set xs. \<not> rebinds T' x"
    using assms(1) rebinds_other by blast
  then show ?thesis
    by (simp add: list_all_iff)
qed

lemma calls_prefix_except:
  "take (Suc (length (calls e)))
     (calls (snd (except_AttributeError (call_quit sem t q code e) (call_quit sem t q' code)))) =
   calls e @ [(t, q, code)]"
  by (simp add: except_AttributeError_def call_quit_def split: prod.splits sum.splits)

lemma call_same_entry:
  "quit_routes self' t = quit_routes self t \<Longrightarrow> original_quit self' = original_quit self \<Longrightarrow>
   QuitterProxy_call sem self' t arg e = QuitterProxy_call sem self t arg e"
  by (simp add: QuitterProxy_call_def local_getattr_def)

lemma unregister_never_raises: "fst (unregister self t e) = Inr PyNone"
  by (cases "quit_routes self t") (simp_all add: unregister_present unregister_absent)

lemma unregister_clears: "quit_routes (fst (snd (unregister self t e))) t = None"
  by (cases "quit_routes self t") (simp_all add: unregister_present unregister_absent)

lemma unregister_original_quit:
  "original_quit (fst (snd (unregister self t e))) = original_quit self"
  by (cases "quit_routes self t") (simp_all add: unregister_present unregister_absent)

lemma calls_returns_None_call_quit:
  "calls (snd (returns_None (call_quit sem t q code e))) = calls e @ [(t, q, code)]"
  by (simp add: snd_returns_None calls_call_quit)

text \<open>
  An exception other than \<^verbatim>\<open>AttributeError\<close> raised by the registered method
  reaches the caller of the proxy as it is, and the registered method is the only one
  called.
\<close>

lemma call_propagates_other:
  assumes "quit_routes self T = Some B"
    and "sem B (default_None arg) (world e) = (Inl x, w')"
    and "\<not> is_AttributeError x"
  shows "QuitterProxy_call sem self T arg e =
    (Inl x, e\<lparr>world := w', calls := calls e @ [(T, B, default_None arg)]\<rparr>)"
  using assms
  by (simp add: call_present call_quit_def except_AttributeError_def returns_None_def)

text \<open>The method \<^verbatim>\<open>__repr__\<close>, called directly, is the call without a code.\<close>

lemma repr_method_is_call:
  "QuitterProxy_repr sem self t e = QuitterProxy_call sem self t None e"
  by (simp add: QuitterProxy_repr_def QuitterProxy_call_def Let_def returns_None_idem)

lemma call_returns_None_only:
  "fst (QuitterProxy_call sem self t arg e) = Inr v \<Longrightarrow> v = PyNone"
  by (cases "except_AttributeError
        (case local_getattr (quit_routes self) t of
           Inl x \<Rightarrow> (Inl x, e)
         | Inr q \<Rightarrow> call_quit sem t q (default_None arg) e)
        (\<lambda>e'. call_quit sem t (original_quit self) (default_None arg) e')")
     (auto simp: QuitterProxy_call_def Let_def returns_None_def split: sum.splits)

lemma snd_builtin_repr: "snd (builtin_repr r) = snd r"
  by (simp add: builtin_repr_def split: prod.splits sum.splits pyval.splits)

lemma builtin_repr_raised: "fst r = Inl x \<Longrightarrow> builtin_repr r = r"
  by (cases r) (simp add: builtin_repr_def)

lemma builtin_repr_None:
  "fst r = Inr PyNone \<Longrightarrow>
   fst (builtin_repr r) = Inl (TypeError ''__repr__ returned non-string (type NoneType)'')"
  by (cases r) (simp add: builtin_repr_def)

text \<open>The definitions that evaluating a concrete run unfolds.\<close>

lemmas example_defs =
  QuitterProxy_call_def QuitterProxy_repr_def QuitterProxy_init_def register_def unregister_def
  local_getattr_def local_setattr_def local_delattr_def except_AttributeError_def
  returns_None_def is_AttributeError_def default_None_def call_quit_def safe_quit_def env0_def
  builtin_repr_def bare_value_def Let_def

section \<open>The claims\<close>

subsection \<open>C1: after register, the thread's calls go to the registered method\<close>

text \<open>
  C1. Thread \<open>T\<close> registers \<open>B\<close>; then the threads make any calls on the proxy among
  which \<open>T\<close> makes no \<^verbatim>\<open>register\<close> and no \<^verbatim>\<open>unregister\<close>. A call of the
  proxy by \<open>T\<close> then looks \<open>B\<close> up and calls it with the code given, with
  \<^verbatim>\<open>None\<close> when none is given: the call of \<open>B\<close> is the first call the proxy makes,
  and the outcome is that of the \<^verbatim>\<open>try\<close> statement around it.
\<close>

theorem register_then_call:
  assumes "list_all (\<lambda>x. \<not> rebinds T x) xs"
    and "exec sem xs (register self T B, e) = (self', e')"
  shows "QuitterProxy_call sem self' T arg e' =
           returns_None
             (except_AttributeError (call_quit sem T B (default_None arg) e')
                (call_quit sem T (original_quit self) (default_None arg)))
       \<and> take (Suc (length (calls e'))) (calls (snd (QuitterProxy_call sem self' T arg e'))) =
           calls e' @ [(T, B, default_None arg)]
       \<and> default_None None = PyNone"
proof -
  have "quit_routes (fst (exec sem xs (register self T B, e))) T = Some B"
    using assms(1) by (simp add: exec_frame quit_routes_register)
  then have entry: "quit_routes self' T = Some B"
    using assms(2) by simp
  have "original_quit (fst (exec sem xs (register self T B, e))) = original_quit self"
    by (simp add: exec_original_quit original_quit_register)
  then have oq: "original_quit self' = original_quit self"
    using assms(2) by simp
  have eq: "QuitterProxy_call sem self' T arg e' =
      returns_None
        (except_AttributeError (call_quit sem T B (default_None arg) e')
           (call_quit sem T (original_quit self) (default_None arg)))"
    using entry oq by (simp add: call_present)
  show ?thesis
    by (simp add: eq snd_returns_None calls_prefix_except default_None_def)
qed

theorem register_then_call_witness:
  "list_all (\<lambda>x. \<not> rebinds 1 x) [Register 2 BrokenQuit, Call 1 None, Unregister 2]
   \<and> QuitterProxy_call example_sem
        (fst (exec example_sem [Register 2 BrokenQuit, Call 1 None, Unregister 2]
           (register (QuitterProxy_init 0 BuiltinQuit) 1 SafeQuit, env0)))
        1 (Some (PyInt 5))
        (snd (exec example_sem [Register 2 BrokenQuit, Call 1 None, Unregister 2]
           (register (QuitterProxy_init 0 BuiltinQuit) 1 SafeQuit, env0))) =
      (Inl (SystemExit (PyInt 5)),
       \<lparr>world = True, calls = [(1, SafeQuit, PyNone), (1, SafeQuit, PyInt 5)], logger = []\<rparr>)"
proof -
  let ?xs = "[Register 2 BrokenQuit, Call 1 None, Unregister 2] :: example_quit op list"
  let ?st = "exec example_sem ?xs (register (QuitterProxy_init 0 BuiltinQuit) 1 SafeQuit, env0)"
  have h1: "list_all (\<lambda>x. \<not> rebinds 1 x) ?xs"
    by simp
  have h2: "exec example_sem ?xs (register (QuitterProxy_init 0 BuiltinQuit) 1 SafeQuit, env0) =
      (fst ?st, snd ?st)"
    by simp
  have e: "snd ?st = \<lparr>world = True, calls = [(1, SafeQuit, PyNone)], logger = []\<rparr>"
    by (simp add: example_defs)
  have "QuitterProxy_call example_sem (fst ?st) 1 (Some (PyInt 5)) (snd ?st) =
      returns_None
        (except_AttributeError (call_quit example_sem 1 SafeQuit (default_None (Some (PyInt 5))) (snd ?st))
           (call_quit example_sem 1 (original_quit (QuitterProxy_init 0 BuiltinQuit))
              (default_None (Some (PyInt 5)))))"
    using register_then_call [OF h1 h2, of "Some (PyInt 5)"] by blast
  then show ?thesis
    using h1 by (simp add: e example_defs)
qed

subsection \<open>C2: a thread without an entry gets the original quit\<close>

text \<open>
  C2. The proxy was constructed around \<open>g\<close> and the threads then made any calls on
  it. A call of the proxy by a thread \<open>T\<close> that has no entry at that moment calls
  \<open>g\<close>, the method stored at construction, with the code given, and no other method.
\<close>

theorem call_without_entry:
  assumes "exec sem xs (QuitterProxy_init T0 g, e0) = (self, e)"
    and "quit_routes self T = None"
  shows "QuitterProxy_call sem self T arg e = returns_None (call_quit sem T g (default_None arg) e)
       \<and> calls (snd (QuitterProxy_call sem self T arg e)) = calls e @ [(T, g, default_None arg)]"
proof -
  have "original_quit (fst (exec sem xs (QuitterProxy_init T0 g, e0))) = g"
    by (simp add: exec_original_quit QuitterProxy_init_def original_quit_register)
  then have oq: "original_quit self = g"
    using assms(1) by simp
  have eq: "QuitterProxy_call sem self T arg e =
      returns_None (call_quit sem T g (default_None arg) e)"
    using assms(2) oq by (simp add: call_absent)
  show ?thesis
    by (simp add: eq calls_returns_None_call_quit)
qed

theorem call_without_entry_witness:
  "quit_routes
     (fst (exec example_sem
        [Register 1 SafeQuit, Call 1 (Some (PyInt 3)), Unregister 1, Unregister 1]
        (QuitterProxy_init 0 BuiltinQuit, env0))) 2 = None
   \<and> QuitterProxy_call example_sem
        (fst (exec example_sem
           [Register 1 SafeQuit, Call 1 (Some (PyInt 3)), Unregister 1, Unregister 1]
           (QuitterProxy_init 0 BuiltinQuit, env0)))
        2 (Some (PyStr ''bye''))
        (snd (exec example_sem
           [Register 1 SafeQuit, Call 1 (Some (PyInt 3)), Unregister 1, Unregister 1]
           (QuitterProxy_init 0 BuiltinQuit, env0))) =
      (Inl (SystemExit (PyStr ''bye'')),
       \<lparr>world = False,
          calls = [(1, SafeQuit, PyInt 3), (2, BuiltinQuit, PyStr ''bye'')],
          logger = [(DEBUG, ''unregister() called, but no quit method registered.'')]\<rparr>)"
proof -
  let ?xs = "[Register 1 SafeQuit, Call 1 (Some (PyInt 3)), Unregister 1, Unregister 1]
      :: example_quit op list"
  let ?st = "exec example_sem ?xs (QuitterProxy_init 0 BuiltinQuit, env0)"
  have h1: "exec example_sem ?xs (QuitterProxy_init 0 BuiltinQuit, env0) = (fst ?st, snd ?st)"
    by simp
  have h2: "quit_routes (fst ?st) 2 = None"
    by (simp add: example_defs)
  have e: "snd ?st =
      \<lparr>world = True, calls = [(1, SafeQuit, PyInt 3)],
         logger = [(DEBUG, ''unregister() called, but no quit method registered.'')]\<rparr>"
    by (simp add: example_defs)
  have "QuitterProxy_call example_sem (fst ?st) 2 (Some (PyStr ''bye'')) (snd ?st) =
      returns_None
        (call_quit example_sem 2 BuiltinQuit (default_None (Some (PyStr ''bye''))) (snd ?st))"
    using call_without_entry [OF h1 h2, of "Some (PyStr ''bye'')"] by blast
  then show ?thesis
    using h2 by (simp add: e example_defs)
qed

subsection \<open>C3: after unregister, the thread gets the original quit\<close>

text \<open>
  C3. Thread \<open>T\<close> calls \<^verbatim>\<open>unregister\<close>; then the threads make any calls among
  which \<open>T\<close> makes no \<^verbatim>\<open>register\<close>, whatever the other threads register. A
  call of the proxy by \<open>T\<close> then calls the original quit with the code given, and no
  other method.
\<close>

theorem unregister_then_call:
  assumes "list_all (\<lambda>x. \<not> rebinds T x) xs"
    and "unregister self T e = (r, self1, e1)"
    and "exec sem xs (self1, e1) = (self', e')"
  shows "QuitterProxy_call sem self' T arg e' =
           returns_None (call_quit sem T (original_quit self) (default_None arg) e')
       \<and> calls (snd (QuitterProxy_call sem self' T arg e')) =
           calls e' @ [(T, original_quit self, default_None arg)]"
proof -
  have r1: "quit_routes self1 T = None"
    using unregister_clears [of self T e] assms(2) by simp
  have o1: "original_quit self1 = original_quit self"
    using unregister_original_quit [of self T e] assms(2) by simp
  have "quit_routes (fst (exec sem xs (self1, e1))) T = quit_routes self1 T"
    using assms(1) by (simp add: exec_frame)
  then have entry: "quit_routes self' T = None"
    using assms(3) r1 by simp
  have "original_quit (fst (exec sem xs (self1, e1))) = original_quit self1"
    by (simp add: exec_original_quit)
  then have oq: "original_quit self' = original_quit self"
    using assms(3) o1 by simp
  have eq: "QuitterProxy_call sem self' T arg e' =
      returns_None (call_quit sem T (original_quit self) (default_None arg) e')"
    using entry oq by (simp add: call_absent)
  show ?thesis
    by (simp add: eq calls_returns_None_call_quit)
qed

theorem unregister_then_call_witness:
  "list_all (\<lambda>x. \<not> rebinds 1 x) [Register 2 ReturningQuit, Repr 2, Register 0 SafeQuit]
   \<and> QuitterProxy_call example_sem
        (fst (exec example_sem [Register 2 ReturningQuit, Repr 2, Register 0 SafeQuit]
           (snd (unregister (register (QuitterProxy_init 0 BuiltinQuit) 1 SafeQuit) 1 env0))))
        1 (Some (PyInt 7))
        (snd (exec example_sem [Register 2 ReturningQuit, Repr 2, Register 0 SafeQuit]
           (snd (unregister (register (QuitterProxy_init 0 BuiltinQuit) 1 SafeQuit) 1 env0)))) =
      (Inl (SystemExit (PyInt 7)),
       \<lparr>world = False,
          calls = [(2, ReturningQuit, PyNone), (1, BuiltinQuit, PyInt 7)],
          logger = []\<rparr>)"
proof -
  let ?xs = "[Register 2 ReturningQuit, Repr 2, Register 0 SafeQuit] :: example_quit op list"
  let ?self = "register (QuitterProxy_init 0 BuiltinQuit) 1 SafeQuit"
  let ?u = "unregister ?self 1 env0"
  let ?st = "exec example_sem ?xs (snd ?u)"
  have h1: "list_all (\<lambda>x. \<not> rebinds 1 x) ?xs"
    by simp
  have h2: "unregister ?self 1 env0 = (fst ?u, fst (snd ?u), snd (snd ?u))"
    by simp
  have h3: "exec example_sem ?xs (fst (snd ?u), snd (snd ?u)) = (fst ?st, snd ?st)"
    by simp
  have e: "snd ?st = \<lparr>world = True, calls = [(2, ReturningQuit, PyNone)], logger = []\<rparr>"
    by (simp add: example_defs)
  have "QuitterProxy_call example_sem (fst ?st) 1 (Some (PyInt 7)) (snd ?st) =
      returns_None
        (call_quit example_sem 1 (original_quit ?self) (default_None (Some (PyInt 7))) (snd ?st))"
    using unregister_then_call [OF h1 h2 h3, of "Some (PyInt 7)"] by blast
  then show ?thesis
    using h1 by (simp add: e example_defs)
qed

subsection \<open>C4: an exception of the registered method\<close>

text \<open>
  C4 says that an exception raised by the registered method reaches the caller
  unchanged and that no second method is called. The \<^verbatim>\<open>try\<close> of \<^verbatim>\<open>__call__\<close>
  encloses the call of the method, not only the lookup, so an \<^verbatim>\<open>AttributeError\<close>
  raised inside the registered method is taken for a missing registration. Thread 1
  registers a method that raises \<^verbatim>\<open>AttributeError\<close> and calls the proxy with 5:
  around the interpreter's quit, the caller gets \<^verbatim>\<open>SystemExit(5)\<close> and standard
  input is closed; around an original quit that returns, the call returns
  \<^verbatim>\<open>None\<close> and the exception is lost. Both times two methods were called.
  Every other exception does propagate unchanged (\<open>call_propagates_other\<close>).
\<close>

theorem call_catches_AttributeError_of_quit_method:
  "example_sem BrokenQuit (PyInt 5) True = (Inl (AttributeError ''closed''), True)
   \<and> QuitterProxy_call example_sem
        (register (QuitterProxy_init 0 BuiltinQuit) 1 BrokenQuit) 1 (Some (PyInt 5)) env0 =
      (Inl (SystemExit (PyInt 5)),
       \<lparr>world = False,
          calls = [(1, BrokenQuit, PyInt 5), (1, BuiltinQuit, PyInt 5)],
          logger = []\<rparr>)
   \<and> QuitterProxy_call example_sem
        (register (QuitterProxy_init 0 ReturningQuit) 1 BrokenQuit) 1 (Some (PyInt 5)) env0 =
      (Inr PyNone,
       \<lparr>world = True,
          calls = [(1, BrokenQuit, PyInt 5), (1, ReturningQuit, PyInt 5)],
          logger = []\<rparr>)"
  by (simp add: example_defs)

subsection \<open>C5: register and unregister touch the caller's entry only\<close>

text \<open>
  C5. Thread \<open>T\<close> makes any sequence of \<^verbatim>\<open>register\<close> and \<^verbatim>\<open>unregister\<close>
  calls. For every other thread \<open>T'\<close> the entry is what it was, the original quit is
  what it was, and a call of the proxy by \<open>T'\<close> does, in any environment, what it
  would have done before.
\<close>

theorem other_thread_unaffected:
  assumes "T \<noteq> T'"
    and "list_all (rebinds T) xs"
    and "exec sem xs (self, e) = (self', e')"
  shows "quit_routes self' T' = quit_routes self T'
       \<and> original_quit self' = original_quit self
       \<and> QuitterProxy_call sem self' T' arg e2 = QuitterProxy_call sem self T' arg e2"
proof -
  have "list_all (\<lambda>x. \<not> rebinds T' x) xs"
    using assms(1,2) by (rule list_all_rebinds_other)
  then have "quit_routes (fst (exec sem xs (self, e))) T' = quit_routes self T'"
    by (simp add: exec_frame)
  then have entry: "quit_routes self' T' = quit_routes self T'"
    using assms(3) by simp
  have "original_quit (fst (exec sem xs (self, e))) = original_quit self"
    by (simp add: exec_original_quit)
  then have oq: "original_quit self' = original_quit self"
    using assms(3) by simp
  have "QuitterProxy_call sem self' T' arg e2 = QuitterProxy_call sem self T' arg e2"
    using entry oq by (rule call_same_entry)
  then show ?thesis
    using entry oq by simp
qed

theorem other_thread_unaffected_witness:
  "(1::nat) \<noteq> 2
   \<and> list_all (rebinds 1)
        [Register 1 SafeQuit, Unregister 1, Unregister 1, Register 1 BrokenQuit]
   \<and> quit_routes
        (fst (exec example_sem
           [Register 1 SafeQuit, Unregister 1, Unregister 1, Register 1 BrokenQuit]
           (register (QuitterProxy_init 0 BuiltinQuit) 2 ReturningQuit, env0))) 2 =
      Some ReturningQuit
   \<and> QuitterProxy_call example_sem
        (fst (exec example_sem
           [Register 1 SafeQuit, Unregister 1, Unregister 1, Register 1 BrokenQuit]
           (register (QuitterProxy_init 0 BuiltinQuit) 2 ReturningQuit, env0)))
        2 None env0 =
      (Inr PyNone, \<lparr>world = True, calls = [(2, ReturningQuit, PyNone)], logger = []\<rparr>)"
proof -
  let ?xs = "[Register 1 SafeQuit, Unregister 1, Unregister 1, Register 1 BrokenQuit]
      :: example_quit op list"
  let ?self = "register (QuitterProxy_init 0 BuiltinQuit) 2 ReturningQuit"
  let ?st = "exec example_sem ?xs (?self, env0)"
  have h1: "(1::nat) \<noteq> 2"
    by simp
  have h2: "list_all (rebinds 1) ?xs"
    by simp
  have h3: "exec example_sem ?xs (?self, env0) = (fst ?st, snd ?st)"
    by simp
  have "quit_routes (fst ?st) 2 = quit_routes ?self 2
      \<and> QuitterProxy_call example_sem (fst ?st) 2 None env0 =
          QuitterProxy_call example_sem ?self 2 None env0"
    using other_thread_unaffected [OF h1 h2 h3, of None env0] by blast
  then show ?thesis
    using h2 by (simp add: example_defs)
qed

subsection \<open>C6: safe_quit raises SystemExit with the code\<close>


subsection \<open>C7: unregister without an entry\<close>

text \<open>
  C7. When thread \<open>T\<close> has no entry, \<^verbatim>\<open>unregister\<close> called by \<open>T\<close> returns
  \<^verbatim>\<open>None\<close> (it does not raise), leaves the proxy, and so every thread's entry, as
  it was, and changes nothing of the environment but the log, which gets one record
  at debug level.
\<close>

theorem unregister_without_entry:
  assumes "quit_routes self T = None"
  shows "unregister self T e =
     (Inr PyNone, self,
      e\<lparr>logger := logger e @ [(DEBUG, ''unregister() called, but no quit method registered.'')]\<rparr>)"
  using assms by (rule unregister_absent)

theorem unregister_without_entry_witness:
  "quit_routes (QuitterProxy_init 0 BuiltinQuit) 1 = None
   \<and> unregister (QuitterProxy_init 0 BuiltinQuit) 1 env0 =
      (Inr PyNone, QuitterProxy_init 0 BuiltinQuit,
       \<lparr>world = True, calls = [],
          logger = [(DEBUG, ''unregister() called, but no quit method registered.'')]\<rparr>)"
proof -
  have h: "quit_routes (QuitterProxy_init 0 BuiltinQuit) 1 = None"
    by (simp add: QuitterProxy_init_def register_def local_setattr_def)
  show ?thesis
    using h unregister_without_entry [OF h, of env0] by (simp add: env0_def)
qed

subsection \<open>C8: construction\<close>

text \<open>
  C8. The proxy constructed by thread \<open>T\<close> around \<open>g\<close> stores \<open>g\<close> as the original
  quit and has \<open>g\<close> as the entry of \<open>T\<close>, and no other entry. The entry is a real
  one: looking it up finds \<open>g\<close> without an \<^verbatim>\<open>AttributeError\<close>, and an
  \<^verbatim>\<open>unregister\<close> by \<open>T\<close> removes it without logging. Construction is a total
  function: it has no failing branch.
\<close>

theorem init_registers_original_quit:
  "QuitterProxy_init T g = \<lparr>quit_routes = [T \<mapsto> g], original_quit = g\<rparr>
   \<and> local_getattr (quit_routes (QuitterProxy_init T g)) T = Inr g
   \<and> unregister (QuitterProxy_init T g) T e =
       (Inr PyNone, \<lparr>quit_routes = Map.empty, original_quit = g\<rparr>, e)"
  by (simp add: QuitterProxy_init_def register_def local_setattr_def local_getattr_def
      unregister_present)

subsection \<open>C9: the proxy as a bare value\<close>

text \<open>
  C9 says that evaluating the proxy as a bare value has, in every registration state,
  exactly the effect of calling it with no code. The effects are the same in every
  state, and so is the outcome of the method \<^verbatim>\<open>__repr__\<close> called directly; but
  \<^verbatim>\<open>__repr__\<close> returns \<^verbatim>\<open>None\<close>, not a string, so when the quit method
  returns, the bare value raises \<^verbatim>\<open>TypeError\<close> where the call returns \<^verbatim>\<open>None\<close>.
  Thread 1 registers a method that returns: the two outcomes differ.
\<close>

theorem bare_value_differs_when_quit_returns:
  "bare_value example_sem (register (QuitterProxy_init 0 BuiltinQuit) 1 ReturningQuit) 1 env0 =
     (Inl (TypeError ''__repr__ returned non-string (type NoneType)''),
      \<lparr>world = True, calls = [(1, ReturningQuit, PyNone)], logger = []\<rparr>)
   \<and> QuitterProxy_call example_sem
        (register (QuitterProxy_init 0 BuiltinQuit) 1 ReturningQuit) 1 None env0 =
     (Inr PyNone, \<lparr>world = True, calls = [(1, ReturningQuit, PyNone)], logger = []\<rparr>)
   \<and> bare_value example_sem (register (QuitterProxy_init 0 BuiltinQuit) 1 ReturningQuit) 1 env0 \<noteq>
     QuitterProxy_call example_sem
        (register (QuitterProxy_init 0 BuiltinQuit) 1 ReturningQuit) 1 None env0"
  by (simp add: example_defs)

text \<open>
  C9, amended. In every thread and registration state the bare value makes the calls
  that the call with no code makes (the same methods, with \<^verbatim>\<open>None\<close>) and leaves
  the same world and log. Whenever the call with no code raises, as a quit method is
  meant to make it, the bare value has exactly the outcome and effects of the call:
  the same exception reaches the caller.
\<close>

theorem bare_value_is_call_when_raising:
  "snd (bare_value sem self T e) = snd (QuitterProxy_call sem self T None e)
   \<and> (fst (QuitterProxy_call sem self T None e) = Inl x \<longrightarrow>
        bare_value sem self T e = QuitterProxy_call sem self T None e)"
proof -
  have effects: "snd (bare_value sem self T e) = snd (QuitterProxy_call sem self T None e)"
    by (simp add: bare_value_def repr_method_is_call snd_builtin_repr)
  have "bare_value sem self T e = QuitterProxy_call sem self T None e"
    if "fst (QuitterProxy_call sem self T None e) = Inl x"
  proof -
    have "builtin_repr (QuitterProxy_call sem self T None e) =
        QuitterProxy_call sem self T None e"
      using that by (rule builtin_repr_raised)
    then show ?thesis
      by (simp add: bare_value_def repr_method_is_call)
  qed
  then show ?thesis
    using effects by simp
qed

theorem bare_value_is_call_when_raising_witness:
  "fst (QuitterProxy_call example_sem
          (register (QuitterProxy_init 0 BuiltinQuit) 1 SafeQuit) 1 None env0) =
     Inl (SystemExit PyNone)
   \<and> bare_value example_sem (register (QuitterProxy_init 0 BuiltinQuit) 1 SafeQuit) 1 env0 =
     (Inl (SystemExit PyNone),
      \<lparr>world = True, calls = [(1, SafeQuit, PyNone)], logger = []\<rparr>)"
proof -
  let ?self = "register (QuitterProxy_init 0 BuiltinQuit) 1 SafeQuit"
  have h: "fst (QuitterProxy_call example_sem ?self 1 None env0) = Inl (SystemExit PyNone)"
    by (simp add: example_defs)
  have c: "QuitterProxy_call example_sem ?self 1 None env0 =
      (Inl (SystemExit PyNone),
       \<lparr>world = True, calls = [(1, SafeQuit, PyNone)], logger = []\<rparr>)"
    by (simp add: example_defs)
  have "bare_value example_sem ?self 1 env0 = QuitterProxy_call example_sem ?self 1 None env0"
    using h bare_value_is_call_when_raising [of example_sem ?self 1 env0 "SystemExit PyNone"]
    by blast
  then show ?thesis
    using h c by simp
qed

subsection \<open>C10: __repr__ returns None when the quit method returns\<close>

text \<open>
  C10. Let \<open>q\<close> be the method the calling thread resolves to: its entry, or the
  original quit when it has none. If \<open>q\<close>, called with \<^verbatim>\<open>None\<close>, returns, then
  \<^verbatim>\<open>__repr__\<close> returns \<^verbatim>\<open>None\<close>, which is not a string.
\<close>

theorem repr_returns_None:
  assumes "q = (case quit_routes self T of Some b \<Rightarrow> b | None \<Rightarrow> original_quit self)"
    and "fst (sem q PyNone (world e)) = Inr v"
  shows "fst (QuitterProxy_repr sem self T e) = Inr PyNone
       \<and> (\<forall>s. fst (QuitterProxy_repr sem self T e) \<noteq> Inr (PyStr s))"
proof -
  have "fst (QuitterProxy_call sem self T None e) = Inr PyNone"
    using assms
    by (cases "quit_routes self T"; cases "sem q PyNone (world e)")
       (simp_all add: call_absent call_present call_quit_def except_AttributeError_def
         returns_None_def default_None_def)
  then show ?thesis
    by (cases "QuitterProxy_call sem self T None e")
       (simp add: QuitterProxy_repr_def returns_None_def)
qed

theorem repr_returns_None_witness:
  "fst (example_sem ReturningQuit PyNone (world env0)) = Inr (PyInt 0)
   \<and> fst (QuitterProxy_repr example_sem
        (register (QuitterProxy_init 0 BuiltinQuit) 1 ReturningQuit) 1 env0) = Inr PyNone"
proof -
  let ?self = "register (QuitterProxy_init 0 BuiltinQuit) 1 ReturningQuit"
  have h1: "ReturningQuit =
      (case quit_routes ?self 1 of Some b \<Rightarrow> b | None \<Rightarrow> original_quit ?self)"
    by (simp add: QuitterProxy_init_def register_def local_setattr_def)
  have h2: "fst (example_sem ReturningQuit PyNone (world env0)) = Inr (PyInt 0)"
    by simp
  show ?thesis
    using h2 repr_returns_None [of ReturningQuit ?self 1 example_sem env0 "PyInt 0", OF h1 h2]
    by blast
qed

end
